theory Spec2Isabelle
  imports Complex_Main "HOL-Library.Word"
begin

section \<open>Data model of main.go\<close>

text \<open>
  Go's \<open>int\<close> is modelled as a 64-bit two's complement word: \<open>+\<close> and \<open>-\<close> wrap
  around, and the comparisons of the source are the signed ones (\<open><s\<close>, \<open>\<le>s\<close>).
  A \<open>float64\<close> is modelled by the real number it stands for and the floating-point
  operations by exact real arithmetic, so rounding errors are not part of the model.
\<close>

type_synonym go_int = "64 word"

definition ELO_RESULT_WIN :: go_int where "ELO_RESULT_WIN = 1"
definition ELO_RESULT_LOSS :: go_int where "ELO_RESULT_LOSS = - 1"
definition ELO_RESULT_TIE :: go_int where "ELO_RESULT_TIE = 0"
definition ELO_RATING_DEFAULT :: go_int where "ELO_RATING_DEFAULT = 1500"

text \<open>
  The structs \<open>Hero\<close>, \<open>User\<close> and \<open>MatchingPool\<close>. The fields \<open>ID\<close> and \<open>Name\<close>
  occur in both \<open>Hero\<close> and \<open>User\<close> and carry the struct's name as a prefix here.
  The associations (\<open>Decks\<close>, \<open>HeroList\<close>), the \<open>float32\<close> win rate and the mutex
  \<open>mu\<close> are left out: no modelled function reads them.
\<close>

record Hero =
  Hero_ID :: go_int
  UserID :: go_int
  Hero_Name :: string
  IsUnlocked :: bool
  Level :: go_int
  CurWin :: go_int
  CurLose :: go_int
  CurPt :: go_int

record User =
  User_ID :: go_int
  IsOnline :: bool
  User_Name :: string
  CurHeroID :: go_int
  AllowedDiff :: go_int

record MatchingPool =
  minPt :: go_int
  maxPt :: go_int
  MatchingQueue :: "User list"

section \<open>The heroes table behind the global \<open>db\<close>\<close>

text \<open>
  The global \<open>db\<close> is passed explicitly, as the list of the rows of the heroes table.

  Before it builds a statement for a \<open>Hero\<close>, gorm parses the schema of the struct.
  The field \<open>Decks\<close> of \<open>Hero\<close> is tagged \<open>foreignKey:HeroID\<close>, and the struct
  \<open>Deck\<close> has no field \<open>HeroID\<close>: the relation cannot be resolved, the schema of
  \<open>Hero\<close> is invalid, and every call of \<open>db.First\<close> or \<open>db.Save\<close> on a \<open>Hero\<close>
  returns that error without running a statement. The source drops the errors. So
  \<open>db.First(&hero, key)\<close> leaves \<open>hero\<close> at its zero value whatever the table holds,
  and \<open>db.Save(&hero)\<close> leaves the table as it is.
\<close>

definition zeroHero :: Hero where
  "zeroHero = \<lparr>Hero_ID = 0, UserID = 0, Hero_Name = [], IsUnlocked = False, Level = 0,
     CurWin = 0, CurLose = 0, CurPt = 0\<rparr>"

definition First :: "Hero list \<Rightarrow> go_int \<Rightarrow> Hero" where
  "First db key = zeroHero"

definition Save :: "Hero list \<Rightarrow> Hero \<Rightarrow> Hero list" where
  "Save db hero = db"

section \<open>Reading and writing the current hero's rating\<close>

definition getCurHeroPt :: "Hero list \<Rightarrow> User \<Rightarrow> go_int" where
  "getCurHeroPt db user =
     (let hero = First db (CurHeroID user)
      in if 0 <s Hero_ID hero then CurPt hero else ELO_RATING_DEFAULT)"

definition updateCurHeroPt :: "Hero list \<Rightarrow> User \<Rightarrow> go_int \<Rightarrow> Hero list" where
  "updateCurHeroPt db user newPt =
     (let hero = First db (CurHeroID user)
      in if 0 <s Hero_ID hero then Save db (hero\<lparr>CurPt := newPt\<rparr>) else db)"

section \<open>Rating compatibility\<close>

definition abs_go :: "go_int \<Rightarrow> go_int" where
  "abs_go x = (if x <s 0 then - x else x)"

definition eloMatch :: "Hero list \<Rightarrow> User \<Rightarrow> User \<Rightarrow> go_int \<Rightarrow> bool" where
  "eloMatch db curUser matchingUser allowedDiff =
     (let eloDiff = abs_go (getCurHeroPt db curUser - getCurHeroPt db matchingUser)
      in eloDiff \<le>s allowedDiff)"

section \<open>The rating update\<close>

text \<open>
  \<open>computeK\<close> reads the rating into the local \<open>elo\<close> and selects the tier from it;
  \<open>computeK_of\<close> is that selection, the \<open>if\<close> chain of the function body.
\<close>

definition computeK_of :: "go_int \<Rightarrow> real" where
  "computeK_of elo = (if 2400 \<le>s elo then 16 else if 2100 \<le>s elo then 24 else 36)"

definition computeK :: "Hero list \<Rightarrow> User \<Rightarrow> real" where
  "computeK db curUser = (let elo = getCurHeroPt db curUser in computeK_of elo)"

text \<open>
  The conversions \<open>float64(n)\<close> and \<open>int(x)\<close>. The latter truncates towards zero; where
  the truncated value does not fit 64 bits Go leaves the result to the implementation,
  and the model reduces it modulo \<open>2 ^ 64\<close>.
\<close>

definition float64_of_int :: "go_int \<Rightarrow> real" where
  "float64_of_int n = real_of_int (sint n)"

definition int_of_float64 :: "real \<Rightarrow> go_int" where
  "int_of_float64 x = word_of_int (if x < 0 then - \<lfloor>- x\<rfloor> else \<lfloor>x\<rfloor>)"

text \<open>
  The \<open>switch\<close> of \<open>eloCal\<close>: the actual score of a result, \<open>None\<close> in the
  \<open>default\<close> branch.
\<close>

definition actualScore :: "go_int \<Rightarrow> real option" where
  "actualScore result =
     (if result = ELO_RESULT_WIN then Some 1
      else if result = ELO_RESULT_TIE then Some (1 / 2)
      else if result = ELO_RESULT_LOSS then Some 0
      else None)"

text \<open>
  \<open>eloCal\<close> returns the table after the call and the lines it printed.
\<close>

definition eloCal :: "Hero list \<Rightarrow> User \<Rightarrow> go_int \<Rightarrow> go_int \<Rightarrow> Hero list \<times> string list" where
  "eloCal db curUser opponentPt result =
     (let K = computeK db curUser;
          expectedScore =
            1 / (1 + 10 powr (float64_of_int (opponentPt - getCurHeroPt db curUser) / 400))
      in case actualScore result of
           None \<Rightarrow> (db, [''Invalid result''])
         | Some score \<Rightarrow>
             (let newPt = float64_of_int (getCurHeroPt db curUser) + K * (score - expectedScore)
              in (updateCurHeroPt db curUser (int_of_float64 newPt), [])))"

text \<open>
  \<open>gameRoom\<close>, run on its own without interleaving: the two \<open>eloCal\<close> calls in the
  order of the source, each reading the opponent's rating with \<open>getCurHeroPt\<close> at
  that moment. \<open>gameRoom_opponentPts\<close> gives the two opponent ratings that are passed.
\<close>

definition gameRoom :: "Hero list \<Rightarrow> User \<Rightarrow> User \<Rightarrow> Hero list \<times> string list" where
  "gameRoom db user1 user2 =
     (let (db1, out1) = eloCal db user1 (getCurHeroPt db user2) ELO_RESULT_WIN;
          (db2, out2) = eloCal db1 user2 (getCurHeroPt db1 user1) ELO_RESULT_LOSS
      in (db2, out1 @ out2))"


section \<open>The matching pool\<close>

definition addUserToPoll :: "User \<Rightarrow> MatchingPool \<Rightarrow> User \<times> MatchingPool" where
  "addUserToPoll curUser pool =
     (let curUser' = curUser\<lparr>AllowedDiff := 0\<rparr>
      in (curUser', pool\<lparr>MatchingQueue := MatchingQueue pool @ [curUser']\<rparr>))"

text \<open>
  The \<open>range\<close> loop of \<open>startMatching\<close>: the index and the value of the first element
  of the scanned slice that \<open>eloMatch\<close> accepts, \<open>None\<close> when the loop ends without
  a \<open>break\<close>.
\<close>

fun scanQueue :: "Hero list \<Rightarrow> User \<Rightarrow> User list \<Rightarrow> nat \<Rightarrow> (nat \<times> User) option" where
  "scanQueue db firstUser [] index = None"
| "scanQueue db firstUser (matchedUser # rest) index =
     (if eloMatch db firstUser matchedUser (AllowedDiff firstUser)
      then Some (index, matchedUser)
      else scanQueue db firstUser rest (Suc index))"

text \<open>
  The increment \<open>int(28800.0 / float64(pt))\<close>. For \<open>pt = 0\<close> the quotient is \<open>+Inf\<close>,
  whose conversion to \<open>int\<close> Go leaves to the implementation: \<open>None\<close>.
\<close>

definition allowedDiffStep :: "go_int \<Rightarrow> go_int option" where
  "allowedDiffStep pt =
     (if pt = 0 then None else Some (int_of_float64 (28800 / float64_of_int pt)))"

text \<open>
  One iteration of the \<open>for\<close> loop of \<open>startMatching\<close>, between \<open>Lock\<close> and
  \<open>Unlock\<close>, reading the ratings from one state \<open>db\<close> of the table. The result is the
  pool after the iteration, the arguments of the \<open>gameRoom\<close> goroutine when one is
  started, and the local variable \<open>firstUser\<close> after its \<open>AllowedDiff\<close> was
  increased (\<open>None\<close> when the \<open>if\<close> is not entered or the increment is left to the
  implementation).
\<close>

definition startMatching_cycle ::
  "Hero list \<Rightarrow> MatchingPool \<Rightarrow> MatchingPool \<times> (User \<times> User) option \<times> User option" where
  "startMatching_cycle db curPool =
     (let curQueue = MatchingQueue curPool
      in if 2 \<le> length curQueue then
           (let firstUser = hd curQueue;
                curQueue1 = tl curQueue;
                (curQueue2, started) =
                  (case scanQueue db firstUser curQueue1 0 of
                     Some (index, matchedUser) \<Rightarrow>
                       (take index curQueue1 @ drop (index + 1) curQueue1,
                        Some (firstUser, matchedUser))
                   | None \<Rightarrow> (curQueue1, None));
                firstUser' =
                  map_option (\<lambda>d. firstUser\<lparr>AllowedDiff := AllowedDiff firstUser + d\<rparr>)
                    (allowedDiffStep (getCurHeroPt db firstUser))
            in (curPool\<lparr>MatchingQueue := curQueue2\<rparr>, started, firstUser'))
         else (curPool\<lparr>MatchingQueue := curQueue\<rparr>, None, None))"

text \<open>
  The loop itself never ends. \<open>startMatching dbs curPool\<close> runs one iteration for
  each element of \<open>dbs\<close>, the state of the table that the iteration reads, and returns
  the pool after the last one.
\<close>

fun startMatching :: "Hero list list \<Rightarrow> MatchingPool \<Rightarrow> MatchingPool" where
  "startMatching [] curPool = curPool"
| "startMatching (db # dbs) curPool = startMatching dbs (fst (startMatching_cycle db curPool))"

section \<open>Example inputs\<close>

text \<open>
  A row of the heroes table with primary key \<open>key\<close> and stored rating \<open>pt\<close>, and a
  user as \<open>addUserToPoll\<close> leaves it (\<open>AllowedDiff = 0\<close>) whose current hero has the
  primary key \<open>key\<close>.
\<close>

definition exampleHero :: "go_int \<Rightarrow> go_int \<Rightarrow> Hero" where
  "exampleHero key pt =
     \<lparr>Hero_ID = key, UserID = key, Hero_Name = ''Mage'', IsUnlocked = True, Level = 1,
      CurWin = 0, CurLose = 0, CurPt = pt\<rparr>"

definition exampleUser :: "go_int \<Rightarrow> User" where
  "exampleUser key =
     \<lparr>User_ID = key, IsOnline = True, User_Name = ''Player'', CurHeroID = key,
      AllowedDiff = 0\<rparr>"


section \<open>Reading and writing through the failing store\<close>

text \<open>
  \<open>First\<close> leaves the zero-valued hero, whose \<open>ID\<close> is 0, so the guard
  \<open>hero.ID > 0\<close> fails in both functions: \<open>getCurHeroPt\<close> returns the default for
  every user and every table, and \<open>updateCurHeroPt\<close> never reaches \<open>Save\<close>.
\<close>

lemma getCurHeroPt_default: "getCurHeroPt db user = 1500"
  by (simp add: getCurHeroPt_def First_def zeroHero_def ELO_RATING_DEFAULT_def word_sless_alt)

lemma updateCurHeroPt_noop: "updateCurHeroPt db user newPt = db"
  by (simp add: updateCurHeroPt_def First_def zeroHero_def word_sless_alt)


text \<open>
  C7: when the table has no row for the user's current hero, \<open>getCurHeroPt\<close> returns
  the default rating 1500, and the compatibility test and the K-factor are computed
  from 1500 for that user.
\<close>

theorem getCurHeroPt_missing_hero_default:
  assumes "find (\<lambda>h. Hero_ID h = CurHeroID user) db = None"
  shows "getCurHeroPt db user = ELO_RATING_DEFAULT \<and> ELO_RATING_DEFAULT = 1500
    \<and> eloMatch db user other d = (abs_go (1500 - getCurHeroPt db other) \<le>s d)
    \<and> computeK db user = 36"
  by (simp add: getCurHeroPt_default ELO_RATING_DEFAULT_def eloMatch_def computeK_def
      computeK_of_def)

theorem getCurHeroPt_missing_hero_default_witness:
  "find (\<lambda>h. Hero_ID h = CurHeroID (exampleUser 2)) [exampleHero 1 1700] = None
   \<and> getCurHeroPt [exampleHero 1 1700] (exampleUser 2) = 1500
   \<and> eloMatch [exampleHero 1 1700] (exampleUser 2) (exampleUser 1) 200
   \<and> computeK [exampleHero 1 1700] (exampleUser 2) = 36"
proof -
  have h: "find (\<lambda>h. Hero_ID h = CurHeroID (exampleUser 2)) [exampleHero 1 1700] = None"
    by (simp add: exampleHero_def exampleUser_def)
  show ?thesis
    using h getCurHeroPt_missing_hero_default [OF h, of "exampleUser 1" 200]
    by (simp add: getCurHeroPt_default abs_go_def ELO_RATING_DEFAULT_def word_sless_alt
        word_sle_eq)
qed

section \<open>The K-factor\<close>


text \<open>
  The rating read is the default for every user, so every call selects the lowest tier.
\<close>

lemma computeK_default: "computeK db curUser = 36"
  by (simp add: computeK_def computeK_of_def getCurHeroPt_default)

section \<open>The compatibility test\<close>

text \<open>
  Negation of a Go \<open>int\<close> is the mathematical one except at the least value, which is
  its own negation; \<open>abs\<close> therefore agrees on \<open>x\<close> and \<open>- x\<close> for every \<open>x\<close>.
\<close>

lemma sint_neg_go:
  fixes x :: go_int
  assumes "sint x \<noteq> - (2 ^ 63)"
  shows "sint (- x) = - sint x"
proof -
  have "- (2 ^ 63) \<le> sint x" "sint x < 2 ^ 63"
    using sint_ge [of x] sint_lt [of x] by simp_all
  with assms have "- (2 ^ 63) \<le> - sint x" "- sint x < 2 ^ 63" by simp_all
  then have "signed_take_bit 63 (- sint x) = - sint x"
    by (rule signed_take_bit_int_eq_self)
  then show ?thesis by (simp add: sint_word_minus)
qed

lemma neg_least_go:
  fixes x :: go_int
  assumes "sint x = - (2 ^ 63)"
  shows "- x = x"
proof -
  have "sint (- x) = signed_take_bit 63 (- sint x)" by (simp add: sint_word_minus)
  also have "\<dots> = - (2 ^ 63)" using assms by (simp add: signed_take_bit_eq_take_bit_minus)
  finally have "sint (- x) = sint x" using assms by simp
  then show ?thesis by (simp only: signed_word_eqI)
qed

lemma abs_go_minus: "abs_go (- x) = abs_go x"
proof (cases "sint x = - (2 ^ 63)")
  case True
  then show ?thesis by (simp add: neg_least_go)
next
  case False
  then have s: "sint (- x) = - sint x" by (rule sint_neg_go)
  have z: "sint x = 0 \<Longrightarrow> x = 0" by (metis sint_0 signed_word_eqI)
  show ?thesis
    using s z by (auto simp: abs_go_def word_sless_alt)
qed


text \<open>
  C9: the compatibility test is symmetric in the two users:
  \<open>eloMatch(u, v, d) = eloMatch(v, u, d)\<close> for all users \<open>u\<close>, \<open>v\<close> and every allowed
  difference \<open>d\<close>, wrap-around of the subtraction included.
\<close>

theorem eloMatch_symmetric: "eloMatch db u v d = eloMatch db v u d"
proof -
  have "getCurHeroPt db v - getCurHeroPt db u = - (getCurHeroPt db u - getCurHeroPt db v)"
    by simp
  then show ?thesis by (simp only: eloMatch_def Let_def abs_go_minus)
qed



section \<open>Rejected results and missing heroes in \<open>eloCal\<close>\<close>

text \<open>
  C4: for every opponent rating and every result other than \<open>ELO_RESULT_WIN\<close>,
  \<open>ELO_RESULT_LOSS\<close> and \<open>ELO_RESULT_TIE\<close>, \<open>eloCal\<close> prints \<open>Invalid result\<close> and
  leaves the table, and with it the stored rating of the user, as it was.
\<close>

theorem eloCal_invalid_result:
  assumes "result \<noteq> ELO_RESULT_WIN" and "result \<noteq> ELO_RESULT_LOSS" and "result \<noteq> ELO_RESULT_TIE"
  shows "eloCal db curUser opponentPt result = (db, [''Invalid result''])
    \<and> getCurHeroPt (fst (eloCal db curUser opponentPt result)) curUser = getCurHeroPt db curUser"
  using assms by (simp add: eloCal_def actualScore_def Let_def)

theorem eloCal_invalid_result_witness:
  "(2 :: go_int) \<noteq> ELO_RESULT_WIN \<and> (2 :: go_int) \<noteq> ELO_RESULT_LOSS \<and> (2 :: go_int) \<noteq> ELO_RESULT_TIE
   \<and> eloCal [exampleHero 1 1500] (exampleUser 1) 1400 2 = ([exampleHero 1 1500], [''Invalid result''])
   \<and> getCurHeroPt (fst (eloCal [exampleHero 1 1500] (exampleUser 1) 1400 2)) (exampleUser 1) = 1500"
proof -
  have h: "(2 :: go_int) \<noteq> ELO_RESULT_WIN" "(2 :: go_int) \<noteq> ELO_RESULT_LOSS"
    "(2 :: go_int) \<noteq> ELO_RESULT_TIE"
    by (simp_all add: ELO_RESULT_WIN_def ELO_RESULT_LOSS_def ELO_RESULT_TIE_def)
  show ?thesis
    using h eloCal_invalid_result [OF h, of "[exampleHero 1 1500]" "exampleUser 1" 1400]
    by (simp add: getCurHeroPt_default)
qed

lemma actualScore_valid:
  "result = ELO_RESULT_WIN \<or> result = ELO_RESULT_TIE \<or> result = ELO_RESULT_LOSS
   \<Longrightarrow> actualScore result \<noteq> None"
  by (elim disjE)
    (simp_all add: actualScore_def ELO_RESULT_WIN_def ELO_RESULT_TIE_def ELO_RESULT_LOSS_def)

text \<open>
  C10: when the table has no row for the user's current hero, \<open>updateCurHeroPt\<close>
  leaves the table unchanged, and so does \<open>eloCal\<close> with a valid result, which
  prints nothing.
\<close>

theorem updateCurHeroPt_missing_hero_noop:
  assumes "find (\<lambda>h. Hero_ID h = CurHeroID user) db = None"
    and "result = ELO_RESULT_WIN \<or> result = ELO_RESULT_TIE \<or> result = ELO_RESULT_LOSS"
  shows "updateCurHeroPt db user newPt = db \<and> eloCal db user opponentPt result = (db, [])"
proof -
  obtain score where "actualScore result = Some score"
    using actualScore_valid [OF assms(2)] by blast
  then show ?thesis
    by (simp add: eloCal_def Let_def updateCurHeroPt_noop)
qed

theorem updateCurHeroPt_missing_hero_noop_witness:
  "find (\<lambda>h. Hero_ID h = CurHeroID (exampleUser 2)) [exampleHero 1 1700] = None
   \<and> updateCurHeroPt [exampleHero 1 1700] (exampleUser 2) 1518 = [exampleHero 1 1700]
   \<and> eloCal [exampleHero 1 1700] (exampleUser 2) 1700 ELO_RESULT_WIN = ([exampleHero 1 1700], [])"
proof -
  have h: "find (\<lambda>h. Hero_ID h = CurHeroID (exampleUser 2)) [exampleHero 1 1700] = None"
    by (simp add: exampleHero_def exampleUser_def)
  show ?thesis
    using h updateCurHeroPt_missing_hero_noop [OF h, of ELO_RESULT_WIN 1518 1700]
    by simp
qed

section \<open>The scan of the queue\<close>




lemma scanQueue_None:
  "\<forall>m\<in>set xs. \<not> eloMatch db firstUser m (AllowedDiff firstUser)
   \<Longrightarrow> scanQueue db firstUser xs index = None"
  by (induction xs arbitrary: index) simp_all




section \<open>What a cycle leaves in the queue\<close>

text \<open>
  A cycle only removes users from the queue; no user record in the queue is modified.
  The \<open>AllowedDiff\<close> of a queued user is therefore the same after any number of cycles.
\<close>

lemma startMatching_cycle_queue_subset:
  "set (MatchingQueue (fst (startMatching_cycle db curPool))) \<subseteq> set (MatchingQueue curPool)"
proof (cases "2 \<le> length (MatchingQueue curPool)")
  case False
  then show ?thesis by (simp add: startMatching_cycle_def)
next
  case True
  then obtain firstUser rest where q: "MatchingQueue curPool = firstUser # rest"
    by (cases "MatchingQueue curPool") auto
  have "set (take i rest @ drop (Suc i) rest) \<subseteq> set rest" for i
    using set_take_subset [of i rest] set_drop_subset [of "Suc i" rest] by auto
  then show ?thesis
    using True
    by (auto simp: startMatching_cycle_def Let_def q split: option.splits prod.splits)
qed

lemma startMatching_queue_subset:
  "set (MatchingQueue (startMatching dbs curPool)) \<subseteq> set (MatchingQueue curPool)"
proof (induction dbs arbitrary: curPool)
  case Nil
  show ?case by simp
next
  case (Cons db dbs)
  from Cons.IH [of "fst (startMatching_cycle db curPool)"]
    startMatching_cycle_queue_subset [of db curPool]
  show ?case by auto
qed

text \<open>
  A cycle in which the scan accepts nobody writes back the queue without its head
  and starts no \<open>gameRoom\<close>.
\<close>

lemma startMatching_cycle_no_match:
  assumes "MatchingQueue curPool = firstUser # rest" and "rest \<noteq> []"
    and "\<forall>m\<in>set rest. \<not> eloMatch db firstUser m (AllowedDiff firstUser)"
  shows "fst (startMatching_cycle db curPool) = curPool\<lparr>MatchingQueue := rest\<rparr>"
    and "fst (snd (startMatching_cycle db curPool)) = None"
proof -
  have len: "2 \<le> length (MatchingQueue curPool)"
    using assms(1,2) by (cases rest) simp_all
  have s: "scanQueue db firstUser rest 0 = None"
    using assms(3) by (rule scanQueue_None)
  show "fst (startMatching_cycle db curPool) = curPool\<lparr>MatchingQueue := rest\<rparr>"
    using len s by (simp add: startMatching_cycle_def Let_def assms(1))
  show "fst (snd (startMatching_cycle db curPool)) = None"
    using len s by (simp add: startMatching_cycle_def Let_def assms(1))
qed


section \<open>A match between two users with a stored rating of 1500\<close>


text \<open>
  C6 says that after a match between two users rated 1500 the stored ratings are 1518
  and 1482. \<open>gameRoom\<close> evaluated on a table that holds a row with rating 1500 for
  each of the two users: nothing is printed, the table is returned as it was, and
  both stored ratings are still 1500.
\<close>

theorem gameRoom_stores_nothing:
  "gameRoom [exampleHero 1 1500, exampleHero 2 1500] (exampleUser 1) (exampleUser 2)
     = ([exampleHero 1 1500, exampleHero 2 1500], [])
   \<and> map_option CurPt (find (\<lambda>h. Hero_ID h = CurHeroID (exampleUser 1))
        (fst (gameRoom [exampleHero 1 1500, exampleHero 2 1500] (exampleUser 1) (exampleUser 2))))
      = Some 1500
   \<and> map_option CurPt (find (\<lambda>h. Hero_ID h = CurHeroID (exampleUser 2))
        (fst (gameRoom [exampleHero 1 1500, exampleHero 2 1500] (exampleUser 1) (exampleUser 2))))
      = Some 1500"
proof -
  have w: "eloCal db u p ELO_RESULT_WIN = (db, [])" for db u p
    by (simp add: eloCal_def actualScore_def Let_def updateCurHeroPt_noop)
  have l: "eloCal db u p ELO_RESULT_LOSS = (db, [])" for db u p
    by (simp add: eloCal_def actualScore_def Let_def updateCurHeroPt_noop
        ELO_RESULT_WIN_def ELO_RESULT_LOSS_def ELO_RESULT_TIE_def)
  show ?thesis
    by (simp add: gameRoom_def w l exampleHero_def exampleUser_def)
qed

end
